theory Spec2Isabelle
  imports Complex_Main
begin

section \<open>Python values and exceptions\<close>

text \<open>
  Simulated time and durations are Python floats in the source; the model computes with
  exact rationals, so rounding is not part of it. The exceptions the program can raise
  are values.
\<close>

datatype error = ValueError | StatisticsError | RuntimeError

section \<open>The random module\<close>

text \<open>
  The state of Python's global generator is a tape of raw draws and a read position.
  Each call of \<^verbatim>\<open>random.randint\<close>, \<^verbatim>\<open>random.normalvariate\<close> or
  \<^verbatim>\<open>random.choice\<close> consumes one draw and moves the position on: \<open>randint a b\<close>
  lands in \<open>a..b\<close>, \<open>normalvariate mu sigma\<close> is \<open>mu + z * sigma\<close> for the drawn
  \<open>z\<close> (any sign), \<open>choice\<close> picks an element of the sequence. The tape stands for what
  the Mersenne Twister produces after \<^verbatim>\<open>random.seed\<close>; every sequence of results is
  the image of some tape.
\<close>

record rng =
  tape :: "nat \<Rightarrow> rat"
  pos :: nat

definition random_draw :: "rng \<Rightarrow> rat \<times> rng" where
  "random_draw g = (tape g (pos g), g\<lparr>pos := Suc (pos g)\<rparr>)"

definition randint :: "int \<Rightarrow> int \<Rightarrow> rng \<Rightarrow> int \<times> rng" where
  "randint a b g = (a + \<lfloor>fst (random_draw g)\<rfloor> mod (b - a + 1), snd (random_draw g))"

definition normalvariate :: "rat \<Rightarrow> rat \<Rightarrow> rng \<Rightarrow> rat \<times> rng" where
  "normalvariate mu sigma g = (mu + fst (random_draw g) * sigma, snd (random_draw g))"

definition choice :: "'a list \<Rightarrow> rng \<Rightarrow> 'a \<times> rng" where
  "choice seq g =
     (seq ! nat (\<lfloor>fst (random_draw g)\<rfloor> mod int (length seq)), snd (random_draw g))"

text \<open>
  The rejection loop of lines 24-25 and of lines 84-85:
  \<^verbatim>\<open>while x < 0: x = random.normalvariate(mu, sigma)\<close>. It may run forever (a tape
  whose remaining draws all give a negative value), which is the result \<open>None\<close>.
\<close>

partial_function (option) redraw_while_negative ::
  "rat \<Rightarrow> rat \<Rightarrow> rat \<Rightarrow> rng \<Rightarrow> (rat \<times> rng) option" where
  "redraw_while_negative mu sigma x g =
     (if x < 0
      then redraw_while_negative mu sigma
             (fst (normalvariate mu sigma g)) (snd (normalvariate mu sigma g))
      else Some (x, g))"

declare redraw_while_negative.simps [code]

text \<open>
  Lines 23-25 (\<^verbatim>\<open>check_ticket\<close>) and lines 83-85 (\<^verbatim>\<open>run_movie_theater\<close>): a first
  draw, then the rejection loop.
\<close>

definition check_ticket_n_seconds :: "rng \<Rightarrow> (rat \<times> rng) option" where
  "check_ticket_n_seconds g =
     (let (n_seconds, g1) = normalvariate (3 / 60) (1 / 60) g
      in redraw_while_negative (3 / 60) (1 / 60) n_seconds g1)"

definition sample_arrival_interval :: "rng \<Rightarrow> (rat \<times> rng) option" where
  "sample_arrival_interval g =
     (let (arrival_interval, g1) = normalvariate (12 / 60) (5 / 60) g
      in redraw_while_negative (12 / 60) (5 / 60) arrival_interval g1)"

section \<open>The simulation kernel (simpy)\<close>

text \<open>
  Modelled from the spec: the classes \<^verbatim>\<open>Environment\<close> and \<^verbatim>\<open>Resource\<close> that the
  source imports from simpy are not under src/. The definitions of this section follow
  the spec's scheduler (4.1: a queue of pending wake-ups ordered by time, ties by
  insertion order; a process is suspended until the event it waits for is processed) and
  resource pool (4.2, 3: fixed positive capacity, the units held, a FIFO wait-list;
  release hands the freed unit to the head of the wait-list at the current time; a
  capacity of zero or less is refused at construction, 7), with the mechanics of simpy:
  events with callback lists, a heap of (time, priority, insertion number, event),
  processes as generators resumed by callbacks.

  Objects live in a store: an event is a number, \<open>events\<close> maps it to its attributes,
  \<open>procs\<close> maps a process to the state of its generator and \<open>target\<close> to the event it
  waits for.
\<close>

datatype res_id = Cashier | Usher | Server

datatype callback = Resume nat | Trigger_put res_id | Trigger_get res_id | Stop_simulation

datatype event_class =
    Event | Timeout rat | Initialize nat | Process | Request res_id | Release res_id nat

record event =
  cls :: event_class
  callbacks :: "callback list option"
  triggered :: bool
  failure :: "error option"
  defused :: bool

record resource =
  capacity :: int
  users :: "nat list"
  put_queue :: "nat list"
  get_queue :: "nat list"

text \<open>
  A generator is the program point it is suspended at, with its live local variables.
  \<open>Run_movie_theater_0\<close>, \<open>Go_to_movies_0\<close> and \<open>Service_0\<close> are generators whose body
  has not started yet. \<open>Run_movie_theater_1\<close> is suspended at line 87.
  \<open>Go_to_movies_request r\<close> is suspended at \<^verbatim>\<open>yield request\<close> and
  \<open>Go_to_movies_service r\<close> at \<^verbatim>\<open>yield env.process(...)\<close> inside the
  \<^verbatim>\<open>with\<close> block of pool \<open>r\<close> (lines 49-51 for the cashier, 53-55 for the usher,
  58-60 for the server); their arguments are the moviegoer, \<open>arrival_time\<close> and the
  request. \<open>Service_0 r\<close> and \<open>Service_1 r\<close> are the service method of pool \<open>r\<close>
  (\<^verbatim>\<open>sell_ticket\<close> for the cashier, \<^verbatim>\<open>check_ticket\<close> for the usher,
  \<^verbatim>\<open>sell_food\<close> for the server) before its body starts and suspended at its
  \<^verbatim>\<open>yield\<close>.
\<close>

datatype gen =
    Run_movie_theater_0 int int int
  | Run_movie_theater_1 rat nat
  | Go_to_movies_0 nat
  | Go_to_movies_request res_id nat rat nat
  | Go_to_movies_service res_id nat rat nat
  | Go_to_movies_end nat
  | Service_0 res_id nat
  | Service_1 res_id nat
  | Ended

text \<open>
  The observations \<open>history\<close> collects are not in the source: a moviegoer's arrival
  (line 47), the duration handed to \<^verbatim>\<open>env.timeout\<close> by a service method, and the
  value appended at line 62. No definition reads \<open>history\<close>.
\<close>

datatype obs = Arrived nat rat | Served nat res_id rat | Seated nat rat

text \<open>
  The state of one run: the environment (\<open>now\<close>, \<open>queue\<close>, \<open>eid\<close>), the object store,
  the pools of the movie theater, and the module-level state of the program
  (\<open>random\<close>: the global generator; \<open>wait_times\<close>: the global list of line 7).
\<close>

record sim =
  now :: rat
  queue :: "(rat \<times> nat \<times> nat \<times> nat) list"
  eid :: nat
  next_obj :: nat
  events :: "nat \<Rightarrow> event option"
  procs :: "nat \<Rightarrow> gen option"
  target :: "nat \<Rightarrow> nat option"
  resources :: "res_id \<Rightarrow> resource option"
  random :: rng
  wait_times :: "rat list"
  history :: "obs list"

definition URGENT :: nat where "URGENT = 0"
definition NORMAL :: nat where "NORMAL = 1"

text \<open>\<^verbatim>\<open>wait_times = []; env = Environment()\<close> (lines 156-158).\<close>

definition Environment :: "rng \<Rightarrow> sim" where
  "Environment g = \<lparr>now = 0, queue = [], eid = 0, next_obj = 0, events = Map.empty,
     procs = Map.empty, target = Map.empty, resources = Map.empty, random = g,
     wait_times = [], history = []\<rparr>"

definition new_event :: "event_class \<Rightarrow> callback list \<Rightarrow> bool \<Rightarrow> sim \<Rightarrow> nat \<times> sim" where
  "new_event c cbs trig s =
     (next_obj s,
      s\<lparr>next_obj := Suc (next_obj s),
        events := (events s)(next_obj s \<mapsto>
          \<lparr>cls = c, callbacks = Some cbs, triggered = trig, failure = None,
           defused = False\<rparr>)\<rparr>)"

definition map_event :: "nat \<Rightarrow> (event \<Rightarrow> event) \<Rightarrow> sim \<Rightarrow> sim" where
  "map_event e f s =
     (case events s e of None \<Rightarrow> s | Some ev \<Rightarrow> s\<lparr>events := (events s)(e \<mapsto> f ev)\<rparr>)"

definition map_resource :: "res_id \<Rightarrow> (resource \<Rightarrow> resource) \<Rightarrow> sim \<Rightarrow> sim" where
  "map_resource r f s =
     (case resources s r of None \<Rightarrow> s
      | Some x \<Rightarrow> s\<lparr>resources := (resources s)(r \<mapsto> f x)\<rparr>)"

definition is_triggered :: "sim \<Rightarrow> nat \<Rightarrow> bool" where
  "is_triggered s e = (case events s e of None \<Rightarrow> False | Some ev \<Rightarrow> triggered ev)"

definition event_failure :: "sim \<Rightarrow> nat \<Rightarrow> error option" where
  "event_failure s e = (case events s e of None \<Rightarrow> None | Some ev \<Rightarrow> failure ev)"

definition event_callbacks :: "sim \<Rightarrow> nat \<Rightarrow> callback list option" where
  "event_callbacks s e = (case events s e of None \<Rightarrow> None | Some ev \<Rightarrow> callbacks ev)"

definition is_defused :: "sim \<Rightarrow> nat \<Rightarrow> bool" where
  "is_defused s e = (case events s e of None \<Rightarrow> False | Some ev \<Rightarrow> defused ev)"

definition add_callback :: "nat \<Rightarrow> callback \<Rightarrow> sim \<Rightarrow> sim" where
  "add_callback e cb s =
     map_event e (\<lambda>ev. ev\<lparr>callbacks := map_option (\<lambda>cbs. cbs @ [cb]) (callbacks ev)\<rparr>) s"

text \<open>\<^verbatim>\<open>Environment.schedule\<close>: push (now + delay, priority, next insertion number, event).\<close>

definition schedule :: "nat \<Rightarrow> nat \<Rightarrow> rat \<Rightarrow> sim \<Rightarrow> sim" where
  "schedule e priority delay s =
     s\<lparr>queue := queue s @ [(now s + delay, priority, eid s, e)], eid := Suc (eid s)\<rparr>"

definition succeed :: "nat \<Rightarrow> sim \<Rightarrow> sim" where
  "succeed e s =
     schedule e NORMAL 0 (map_event e (\<lambda>ev. ev\<lparr>triggered := True, failure := None\<rparr>) s)"

text \<open>\<^verbatim>\<open>env.timeout(delay)\<close>: an event that is triggered already, scheduled at now + delay.\<close>

definition timeout :: "rat \<Rightarrow> sim \<Rightarrow> nat \<times> sim" where
  "timeout delay s =
     (let (e, s1) = new_event (Timeout delay) [] True s in (e, schedule e NORMAL delay s1))"

text \<open>
  \<^verbatim>\<open>env.process(generator)\<close>: the process is an event of its own (triggered when the
  generator ends); an \<open>Initialize\<close> event, urgent and at the current time, starts it.
\<close>

definition process :: "gen \<Rightarrow> sim \<Rightarrow> nat \<times> sim" where
  "process g s =
     (let (p, s1) = new_event Process [] False s;
          s2 = s1\<lparr>procs := (procs s1)(p \<mapsto> g)\<rparr>;
          (i, s3) = new_event (Initialize p) [Resume p] True s2;
          s4 = s3\<lparr>target := (target s3)(p \<mapsto> i)\<rparr>
      in (p, schedule i URGENT 0 s4))"

subsection \<open>Resource\<close>

text \<open>\<^verbatim>\<open>Resource(env, capacity)\<close>: a capacity of zero or less is a \<^verbatim>\<open>ValueError\<close>.\<close>

definition Resource :: "int \<Rightarrow> error + resource" where
  "Resource n =
     (if n \<le> 0 then Inl ValueError
      else Inr \<lparr>capacity = n, users = [], put_queue = [], get_queue = []\<rparr>)"

text \<open>
  \<open>do_put\<close> grants a request when a unit is free; \<open>do_get\<close> takes the released
  request out of the users. \<open>trigger_put\<close> and \<open>trigger_get\<close> look at the head of
  their queue only (the loop of simpy stops after the first event, since \<open>do_put\<close> and
  \<open>do_get\<close> return nothing), and pop it when it was triggered.
\<close>

definition do_put :: "res_id \<Rightarrow> nat \<Rightarrow> sim \<Rightarrow> sim" where
  "do_put r e s =
     (case resources s r of None \<Rightarrow> s
      | Some x \<Rightarrow>
          if int (length (users x)) < capacity x
          then succeed e (map_resource r (\<lambda>x. x\<lparr>users := users x @ [e]\<rparr>) s)
          else s)"

definition do_get :: "res_id \<Rightarrow> nat \<Rightarrow> sim \<Rightarrow> sim" where
  "do_get r e s =
     (let s1 = (case events s e of None \<Rightarrow> s
                | Some ev \<Rightarrow>
                    (case cls ev of
                       Release r' q \<Rightarrow>
                         map_resource r (\<lambda>x. x\<lparr>users := remove1 q (users x)\<rparr>) s
                     | _ \<Rightarrow> s))
      in succeed e s1)"

definition trigger_put :: "res_id \<Rightarrow> sim \<Rightarrow> sim" where
  "trigger_put r s =
     (case resources s r of None \<Rightarrow> s
      | Some x \<Rightarrow>
          (case put_queue x of [] \<Rightarrow> s
           | put_event # _ \<Rightarrow>
               let s1 = do_put r put_event s in
               if is_triggered s1 put_event
               then map_resource r (\<lambda>x. x\<lparr>put_queue := tl (put_queue x)\<rparr>) s1
               else s1))"

definition trigger_get :: "res_id \<Rightarrow> sim \<Rightarrow> sim" where
  "trigger_get r s =
     (case resources s r of None \<Rightarrow> s
      | Some x \<Rightarrow>
          (case get_queue x of [] \<Rightarrow> s
           | get_event # _ \<Rightarrow>
               let s1 = do_get r get_event s in
               if is_triggered s1 get_event
               then map_resource r (\<lambda>x. x\<lparr>get_queue := tl (get_queue x)\<rparr>) s1
               else s1))"

text \<open>
  \<^verbatim>\<open>resource.request()\<close>: the new request joins the wait-list and the head of the
  wait-list is tried at once. \<^verbatim>\<open>resource.release(request)\<close>: the release event joins
  the get queue and is carried out at once; the wait-list is tried again when the
  release event is processed (its callback \<open>Trigger_put\<close>).
\<close>

definition request :: "res_id \<Rightarrow> sim \<Rightarrow> nat \<times> sim" where
  "request r s =
     (let (e, s1) = new_event (Request r) [] False s;
          s2 = map_resource r (\<lambda>x. x\<lparr>put_queue := put_queue x @ [e]\<rparr>) s1;
          s3 = add_callback e (Trigger_get r) s2
      in (e, trigger_put r s3))"

definition release :: "res_id \<Rightarrow> nat \<Rightarrow> sim \<Rightarrow> nat \<times> sim" where
  "release r q s =
     (let (e, s1) = new_event (Release r q) [] False s;
          s2 = map_resource r (\<lambda>x. x\<lparr>get_queue := get_queue x @ [e]\<rparr>) s1;
          s3 = add_callback e (Trigger_put r) s2
      in (e, trigger_get r s3))"

text \<open>
  Leaving the \<^verbatim>\<open>with\<close> block of a request: \<^verbatim>\<open>cancel\<close> takes a request that was
  never granted out of the wait-list, then the unit is released.
\<close>

definition cancel :: "res_id \<Rightarrow> nat \<Rightarrow> sim \<Rightarrow> sim" where
  "cancel r q s =
     (if is_triggered s q then s
      else map_resource r (\<lambda>x. x\<lparr>put_queue := remove1 q (put_queue x)\<rparr>) s)"

definition request_exit :: "res_id \<Rightarrow> nat \<Rightarrow> sim \<Rightarrow> sim" where
  "request_exit r q s = snd (release r q (cancel r q s))"

section \<open>The movie theater\<close>

text \<open>
  \<^verbatim>\<open>MovieTheater.__init__\<close> (lines 11-15): the three pools, in the order cashier,
  usher, server; the first refused capacity raises.
\<close>

definition MovieTheater :: "int \<Rightarrow> int \<Rightarrow> int \<Rightarrow> error + (res_id \<Rightarrow> resource option)" where
  "MovieTheater n_cashiers n_ushers n_servers =
     (case Resource n_cashiers of Inl e \<Rightarrow> Inl e
      | Inr c \<Rightarrow>
     (case Resource n_ushers of Inl e \<Rightarrow> Inl e
      | Inr u \<Rightarrow>
     (case Resource n_servers of Inl e \<Rightarrow> Inl e
      | Inr sv \<Rightarrow> Inr [Cashier \<mapsto> c, Usher \<mapsto> u, Server \<mapsto> sv])))"

text \<open>
  What a generator does when it is resumed: it runs to its next \<^verbatim>\<open>yield\<close> (the
  event it yields), to its end, or raises.
\<close>

datatype sent = Yield nat sim | Return sim | Raise error sim

fun sent_state :: "sent \<Rightarrow> sim" where
  "sent_state (Yield y s) = s"
| "sent_state (Return s) = s"
| "sent_state (Raise err s) = s"

definition set_gen :: "nat \<Rightarrow> gen \<Rightarrow> sim \<Rightarrow> sim" where
  "set_gen pid g s = s\<lparr>procs := (procs s)(pid \<mapsto> g)\<rparr>"

definition observe :: "obs \<Rightarrow> sim \<Rightarrow> sim" where
  "observe x s = s\<lparr>history := history s @ [x]\<rparr>"

text \<open>
  The duration a service method hands to \<^verbatim>\<open>env.timeout\<close>: \<^verbatim>\<open>sell_ticket\<close>
  (line 19), \<^verbatim>\<open>check_ticket\<close> (lines 23-26), \<^verbatim>\<open>sell_food\<close> (line 30).
\<close>

fun service_time :: "res_id \<Rightarrow> rng \<Rightarrow> (rat \<times> rng) option" where
  "service_time Cashier g = Some (of_int (fst (randint 1 3 g)), snd (randint 1 3 g))"
| "service_time Usher g = check_ticket_n_seconds g"
| "service_time Server g = Some (of_int (fst (randint 1 5 g)), snd (randint 1 5 g))"

text \<open>The body of a service method: sample the duration, yield the timeout.\<close>

definition service_0 :: "nat \<Rightarrow> res_id \<Rightarrow> nat \<Rightarrow> sim \<Rightarrow> sent option" where
  "service_0 pid r moviegoer s =
     (case service_time r (random s) of
        None \<Rightarrow> None
      | Some (d, g) \<Rightarrow>
          (let (e, s1) = timeout d (observe (Served moviegoer r d) (s\<lparr>random := g\<rparr>))
           in Some (Yield e (set_gen pid (Service_1 r moviegoer) s1))))"

text \<open>
  \<^verbatim>\<open>go_to_movies\<close> (lines 47-62), cut at its \<^verbatim>\<open>yield\<close>s. \<open>go_to_movies_enter\<close>
  is \<^verbatim>\<open>with pool.request() as request: yield request\<close>; \<open>go_to_movies_finish\<close> is
  line 62 and the end of the generator.
\<close>

definition go_to_movies_enter :: "nat \<Rightarrow> res_id \<Rightarrow> nat \<Rightarrow> rat \<Rightarrow> sim \<Rightarrow> sent" where
  "go_to_movies_enter pid r moviegoer arrival_time s =
     (let (q, s1) = request r s
      in Yield q (set_gen pid (Go_to_movies_request r moviegoer arrival_time q) s1))"

definition go_to_movies_finish :: "nat \<Rightarrow> nat \<Rightarrow> rat \<Rightarrow> sim \<Rightarrow> sent" where
  "go_to_movies_finish pid moviegoer arrival_time s =
     Return (set_gen pid (Go_to_movies_end moviegoer)
       (observe (Seated moviegoer (now s - arrival_time))
         (s\<lparr>wait_times := wait_times s @ [now s - arrival_time]\<rparr>)))"

definition go_to_movies_0 :: "nat \<Rightarrow> nat \<Rightarrow> sim \<Rightarrow> sent" where
  "go_to_movies_0 pid moviegoer s =
     (let arrival_time = now s
      in go_to_movies_enter pid Cashier moviegoer arrival_time
           (observe (Arrived moviegoer arrival_time) s))"

definition go_to_movies_request :: "nat \<Rightarrow> res_id \<Rightarrow> nat \<Rightarrow> rat \<Rightarrow> nat \<Rightarrow> sim \<Rightarrow> sent" where
  "go_to_movies_request pid r moviegoer arrival_time q s =
     (let (p, s1) = process (Service_0 r moviegoer) s
      in Yield p (set_gen pid (Go_to_movies_service r moviegoer arrival_time q) s1))"

definition go_to_movies_service :: "nat \<Rightarrow> res_id \<Rightarrow> nat \<Rightarrow> rat \<Rightarrow> nat \<Rightarrow> sim \<Rightarrow> sent" where
  "go_to_movies_service pid r moviegoer arrival_time q s =
     (let s1 = request_exit r q s in
      case r of
        Cashier \<Rightarrow> go_to_movies_enter pid Usher moviegoer arrival_time s1
      | Usher \<Rightarrow>
          (let (b, g) = choice [True, False] (random s1);
               s2 = s1\<lparr>random := g\<rparr>
           in if b then go_to_movies_enter pid Server moviegoer arrival_time s2
              else go_to_movies_finish pid moviegoer arrival_time s2)
      | Server \<Rightarrow> go_to_movies_finish pid moviegoer arrival_time s1)"

text \<open>
  \<^verbatim>\<open>run_movie_theater\<close> (lines 79-88). The first part runs to the first
  \<^verbatim>\<open>yield env.timeout(arrival_interval)\<close>; the second is one turn of the endless
  loop, from line 88 to line 87. The counter of \<^verbatim>\<open>get_moviegoer\<close> (lines 65-70) is
  the second argument of \<open>Run_movie_theater_1\<close>.
\<close>

definition run_movie_theater_0 :: "nat \<Rightarrow> int \<Rightarrow> int \<Rightarrow> int \<Rightarrow> sim \<Rightarrow> sent option" where
  "run_movie_theater_0 pid n_cashiers n_servers n_ushers s =
     (case MovieTheater n_cashiers n_ushers n_servers of
        Inl e \<Rightarrow> Some (Raise e (set_gen pid Ended s))
      | Inr movie_theater \<Rightarrow>
          (let s1 = s\<lparr>resources := movie_theater\<rparr> in
           case sample_arrival_interval (random s1) of
             None \<Rightarrow> None
           | Some (arrival_interval, g) \<Rightarrow>
               (let (e, s2) = timeout arrival_interval (s1\<lparr>random := g\<rparr>)
                in Some (Yield e (set_gen pid (Run_movie_theater_1 arrival_interval 0) s2)))))"

definition run_movie_theater_1 :: "nat \<Rightarrow> rat \<Rightarrow> nat \<Rightarrow> sim \<Rightarrow> sent" where
  "run_movie_theater_1 pid arrival_interval n s =
     (let (p, s1) = process (Go_to_movies_0 n) s;
          (e, s2) = timeout arrival_interval s1
      in Yield e (set_gen pid (Run_movie_theater_1 arrival_interval (Suc n)) s2))"

text \<open>\<^verbatim>\<open>generator.send\<close>: a generator that has ended only ends again.\<close>

definition gen_send :: "nat \<Rightarrow> sim \<Rightarrow> sent option" where
  "gen_send pid s =
     (case procs s pid of
        None \<Rightarrow> Some (Return s)
      | Some g \<Rightarrow>
          (case g of
             Run_movie_theater_0 n_cashiers n_servers n_ushers \<Rightarrow>
               run_movie_theater_0 pid n_cashiers n_servers n_ushers s
           | Run_movie_theater_1 arrival_interval n \<Rightarrow>
               Some (run_movie_theater_1 pid arrival_interval n s)
           | Go_to_movies_0 moviegoer \<Rightarrow> Some (go_to_movies_0 pid moviegoer s)
           | Go_to_movies_request r moviegoer arrival_time q \<Rightarrow>
               Some (go_to_movies_request pid r moviegoer arrival_time q s)
           | Go_to_movies_service r moviegoer arrival_time q \<Rightarrow>
               Some (go_to_movies_service pid r moviegoer arrival_time q s)
           | Go_to_movies_end moviegoer \<Rightarrow> Some (Return s)
           | Service_0 r moviegoer \<Rightarrow> service_0 pid r moviegoer s
           | Service_1 r moviegoer \<Rightarrow> Some (Return (set_gen pid Ended s))
           | Ended \<Rightarrow> Some (Return s)))"

text \<open>
  \<^verbatim>\<open>generator.throw\<close>: no generator of the program catches an exception, so it
  leaves the generator, through the \<^verbatim>\<open>with\<close> block the generator is in.
\<close>

definition gen_throw :: "nat \<Rightarrow> error \<Rightarrow> sim \<Rightarrow> sent" where
  "gen_throw pid err s =
     (case procs s pid of
        Some (Go_to_movies_request r moviegoer arrival_time q) \<Rightarrow>
          Raise err (set_gen pid Ended (request_exit r q s))
      | Some (Go_to_movies_service r moviegoer arrival_time q) \<Rightarrow>
          Raise err (set_gen pid Ended (request_exit r q s))
      | Some (Go_to_movies_end moviegoer) \<Rightarrow> Raise err s
      | _ \<Rightarrow> Raise err (set_gen pid Ended s))"

subsection \<open>Resuming a process, one step of the environment, the run\<close>

definition finish_process :: "nat \<Rightarrow> error option \<Rightarrow> sim \<Rightarrow> sim" where
  "finish_process pid err s =
     schedule pid NORMAL 0
       (map_event pid (\<lambda>ev. ev\<lparr>triggered := True, failure := err\<rparr>)
         (s\<lparr>target := (target s)(pid := None)\<rparr>))"

text \<open>
  \<^verbatim>\<open>Process._resume(event)\<close>: send the event's value into the generator (or throw
  its exception); when the generator ends or raises, the process is triggered and
  scheduled; when it yields an event that is not processed yet, the process is added to
  that event's callbacks, and when the event is processed already the loop goes on with
  it.
\<close>

partial_function (option) resume :: "nat \<Rightarrow> nat \<Rightarrow> sim \<Rightarrow> sim option" where
  "resume pid e s =
     (case (case event_failure s e of
              None \<Rightarrow> gen_send pid s
            | Some err \<Rightarrow>
                Some (gen_throw pid err (map_event e (\<lambda>ev. ev\<lparr>defused := True\<rparr>) s))) of
        None \<Rightarrow> None
      | Some (Return s1) \<Rightarrow> Some (finish_process pid None s1)
      | Some (Raise err s1) \<Rightarrow> Some (finish_process pid (Some err) s1)
      | Some (Yield y s1) \<Rightarrow>
          (case event_callbacks s1 y of
             None \<Rightarrow> resume pid y s1
           | Some cbs \<Rightarrow>
               Some (add_callback y (Resume pid) (s1\<lparr>target := (target s1)(pid \<mapsto> y)\<rparr>))))"

declare resume.simps [code]

text \<open>
  The callbacks of a processed event, in order. \<open>Stop_simulation\<close> raises
  \<^verbatim>\<open>StopSimulation\<close>, which ends the run: the result \<open>(True, s)\<close>.
\<close>

fun run_callbacks :: "callback list \<Rightarrow> nat \<Rightarrow> sim \<Rightarrow> (bool \<times> sim) option" where
  "run_callbacks [] e s = Some (False, s)"
| "run_callbacks (Resume pid # cbs) e s =
     (case resume pid e s of None \<Rightarrow> None | Some s1 \<Rightarrow> run_callbacks cbs e s1)"
| "run_callbacks (Trigger_put r # cbs) e s = run_callbacks cbs e (trigger_put r s)"
| "run_callbacks (Trigger_get r # cbs) e s = run_callbacks cbs e (trigger_get r s)"
| "run_callbacks (Stop_simulation # cbs) e s = Some (True, s)"

text \<open>
  \<^verbatim>\<open>heappop\<close> returns the least entry: by time, then priority, then insertion
  number (which no two entries share).
\<close>

type_synonym entry = "rat \<times> nat \<times> nat \<times> nat"

definition entry_less :: "entry \<Rightarrow> entry \<Rightarrow> bool" where
  "entry_less x y =
     (case x of (t, p, i, _) \<Rightarrow> case y of (t', p', i', _) \<Rightarrow>
        t < t' \<or> (t = t' \<and> (p < p' \<or> (p = p' \<and> i < i'))))"

fun min_entry :: "entry \<Rightarrow> entry list \<Rightarrow> entry" where
  "min_entry m [] = m"
| "min_entry m (x # xs) = min_entry (if entry_less x m then x else m) xs"

datatype outcome = Continue sim | Stopped sim | Crashed error sim | Empty_schedule sim

definition heappop :: "sim \<Rightarrow> (entry \<times> sim) option" where
  "heappop s =
     (case queue s of
        [] \<Rightarrow> None
      | x # xs \<Rightarrow> (let m = min_entry x xs in Some (m, s\<lparr>queue := remove1 m (queue s)\<rparr>)))"

text \<open>
  Processing an event: its callbacks are taken off the event and run in order; an event
  that failed and that no process took over crashes the run.
\<close>

definition fire :: "nat \<Rightarrow> sim \<Rightarrow> outcome option" where
  "fire e s =
     (let cbs = (case event_callbacks s e of None \<Rightarrow> [] | Some c \<Rightarrow> c);
          s1 = map_event e (\<lambda>ev. ev\<lparr>callbacks := None\<rparr>) s
      in case run_callbacks cbs e s1 of
           None \<Rightarrow> None
         | Some (True, s2) \<Rightarrow> Some (Stopped s2)
         | Some (False, s2) \<Rightarrow>
             (case event_failure s2 e of
                None \<Rightarrow> Some (Continue s2)
              | Some err \<Rightarrow>
                  if is_defused s2 e then Some (Continue s2) else Some (Crashed err s2)))"

text \<open>
  \<^verbatim>\<open>Environment.step\<close>: pop the least entry, set the clock to its time, process
  the event.
\<close>

definition step :: "sim \<Rightarrow> outcome option" where
  "step s =
     (case heappop s of
        None \<Rightarrow> Some (Empty_schedule s)
      | Some ((t, priority, i, e), s1) \<Rightarrow> fire e (s1\<lparr>now := t\<rparr>))"

text \<open>The first \<open>n\<close> steps of a run, as far as the run goes on.\<close>

fun steps :: "nat \<Rightarrow> sim \<Rightarrow> outcome option" where
  "steps 0 s = Some (Continue s)"
| "steps (Suc n) s =
     (case step s of
        None \<Rightarrow> None
      | Some (Continue s1) \<Rightarrow> steps n s1
      | Some (Stopped s1) \<Rightarrow> Some (Stopped s1)
      | Some (Crashed err s1) \<Rightarrow> Some (Crashed err s1)
      | Some (Empty_schedule s1) \<Rightarrow> Some (Empty_schedule s1))"

fun state_of :: "outcome \<Rightarrow> sim" where
  "state_of (Continue s) = s"
| "state_of (Stopped s) = s"
| "state_of (Crashed err s) = s"
| "state_of (Empty_schedule s) = s"

text \<open>The loop \<^verbatim>\<open>while True: self.step()\<close> of \<^verbatim>\<open>Environment.run\<close>.\<close>

partial_function (option) run_loop :: "sim \<Rightarrow> outcome option" where
  "run_loop s =
     (case step s of
        None \<Rightarrow> None
      | Some (Continue s1) \<Rightarrow> run_loop s1
      | Some (Stopped s1) \<Rightarrow> Some (Stopped s1)
      | Some (Crashed err s1) \<Rightarrow> Some (Crashed err s1)
      | Some (Empty_schedule s1) \<Rightarrow> Some (Empty_schedule s1))"

declare run_loop.simps [code]

text \<open>
  \<^verbatim>\<open>env.run(until=number)\<close>: an urgent event at time \<open>until\<close> whose callback stops
  the simulation; a horizon that is not in the future is a \<^verbatim>\<open>ValueError\<close>, a crash
  is the exception of the failed event, an empty schedule a \<^verbatim>\<open>RuntimeError\<close>.
\<close>

definition run_until :: "rat \<Rightarrow> sim \<Rightarrow> sim" where
  "run_until until s =
     (let (u, s1) = new_event Event [] True s;
          s2 = schedule u URGENT (until - now s1) s1
      in add_callback u Stop_simulation s2)"

definition run :: "rat \<Rightarrow> sim \<Rightarrow> (error + sim) option" where
  "run until s =
     (if until \<le> now s then Some (Inl ValueError)
      else
        (case run_loop (run_until until s) of
           None \<Rightarrow> None
         | Some (Stopped s1) \<Rightarrow> Some (Inr s1)
         | Some (Crashed err s1) \<Rightarrow> Some (Inl err)
         | Some (Empty_schedule s1) \<Rightarrow> Some (Inl RuntimeError)
         | Some (Continue s1) \<Rightarrow> None))"

section \<open>The driver\<close>

text \<open>
  Python's \<^verbatim>\<open>range(a, b)\<close> over unbounded integers: \<open>a, a + 1, ..., b - 1\<close>, empty
  when \<open>b \<le> a\<close>.
\<close>

definition range_py :: "int \<Rightarrow> int \<Rightarrow> int list" where
  "range_py a b = [a..b - 1]"

text \<open>
  \<^verbatim>\<open>get_parameter_permutation\<close> (lines 120-133) is a generator with three nested
  \<^verbatim>\<open>for\<close> loops; the model is the list of the triples it yields, in the order it
  yields them.
\<close>

definition get_parameter_permutation :: "int \<Rightarrow> (int \<times> int \<times> int) list" where
  "get_parameter_permutation total_employees =
     concat (map (\<lambda>num_cashiers.
       let servers_and_ushers = total_employees - num_cashiers in
       concat (map (\<lambda>num_servers.
         let possible_ushers = servers_and_ushers - num_servers in
         map (\<lambda>num_ushers. (num_cashiers, num_servers, num_ushers))
           (range_py 1 possible_ushers))
         (range_py 1 servers_and_ushers)))
       (range_py 1 (total_employees - 1)))"

text \<open>\<^verbatim>\<open>statistics.mean\<close>: a \<^verbatim>\<open>StatisticsError\<close> on an empty sequence.\<close>

definition statistics_mean :: "rat list \<Rightarrow> error + rat" where
  "statistics_mean xs =
     (if xs = [] then Inl StatisticsError else Inr (sum_list xs / of_nat (length xs)))"

text \<open>Python's \<^verbatim>\<open>round\<close> to an integer: to the nearest, a tie to the even one.\<close>

definition round_py :: "rat \<Rightarrow> int" where
  "round_py x =
     (let f = \<lfloor>x\<rfloor>; d = x - of_int f
      in if d < 1 / 2 then f else if 1 / 2 < d then f + 1
         else if even f then f else f + 1)"

text \<open>\<^verbatim>\<open>get_average_wait_time\<close> (lines 91-97).\<close>

definition get_average_wait_time :: "rat list \<Rightarrow> error + int \<times> int" where
  "get_average_wait_time ts =
     (case statistics_mean ts of
        Inl e \<Rightarrow> Inl e
      | Inr average_wait \<Rightarrow>
          (let minutes = of_int \<lfloor>average_wait\<rfloor> :: rat;
               frac_minutes = average_wait - minutes;
               seconds = frac_minutes * 60
           in Inr (round_py minutes, round_py seconds)))"

text \<open>
  One run, lines 156-160: the global list is emptied, a fresh environment gets the
  arrival process, and the environment runs to the horizon. The generator state goes in
  and comes out with the run.
\<close>

definition start :: "rng \<Rightarrow> int \<times> int \<times> int \<Rightarrow> sim" where
  "start g cfg =
     (case cfg of (num_cashiers, num_servers, num_ushers) \<Rightarrow>
        snd (process (Run_movie_theater_0 num_cashiers num_servers num_ushers)
               (Environment g)))"

definition simulate :: "rng \<Rightarrow> int \<times> int \<times> int \<Rightarrow> rat \<Rightarrow> (error + sim) option" where
  "simulate g cfg until = run until (start g cfg)"

text \<open>
  \<^verbatim>\<open>best_setup\<close> (lines 147-151); \<open>None\<close> is the initial \<^verbatim>\<open>float('inf')\<close>.
\<close>

record best_setup =
  avg_wait_time :: "rat option"
  best_wait_times :: "rat list"
  n_cashiers :: int
  n_servers :: int
  n_ushers :: int

definition initial_best_setup :: best_setup where
  "initial_best_setup =
     \<lparr>avg_wait_time = None, best_wait_times = [], n_cashiers = 0, n_servers = 0,
      n_ushers = 0\<rparr>"

text \<open>Lines 163-169: the mean of the run's wait times, and the comparison.\<close>

definition view_results ::
  "rat list \<Rightarrow> int \<times> int \<times> int \<Rightarrow> best_setup \<Rightarrow> error + best_setup" where
  "view_results ts cfg best =
     (case cfg of (num_cashiers, num_servers, num_ushers) \<Rightarrow>
        (case statistics_mean ts of
           Inl e \<Rightarrow> Inl e
         | Inr avg \<Rightarrow>
             if (case avg_wait_time best of None \<Rightarrow> True | Some b \<Rightarrow> avg < b)
             then Inr \<lparr>avg_wait_time = Some avg, best_wait_times = ts,
                       n_cashiers = num_cashiers, n_servers = num_servers,
                       n_ushers = num_ushers\<rparr>
             else Inr best))"

text \<open>The body of the loop of \<^verbatim>\<open>main\<close> (lines 154-169) and the loop.\<close>

definition main_iteration ::
  "int \<Rightarrow> rng \<times> best_setup \<Rightarrow> int \<times> int \<times> int \<Rightarrow> (error + rng \<times> best_setup) option" where
  "main_iteration simulation_runs st cfg =
     (case simulate (fst st) cfg (of_int simulation_runs) of
        None \<Rightarrow> None
      | Some (Inl e) \<Rightarrow> Some (Inl e)
      | Some (Inr s) \<Rightarrow>
          (case view_results (wait_times s) cfg (snd st) of
             Inl e \<Rightarrow> Some (Inl e)
           | Inr best \<Rightarrow> Some (Inr (random s, best))))"

fun main_loop ::
  "int \<Rightarrow> (int \<times> int \<times> int) list \<Rightarrow> rng \<times> best_setup \<Rightarrow> (error + rng \<times> best_setup) option"
  where
  "main_loop simulation_runs [] st = Some (Inr st)"
| "main_loop simulation_runs (cfg # cfgs) st =
     (case main_iteration simulation_runs st cfg of
        None \<Rightarrow> None
      | Some (Inl e) \<Rightarrow> Some (Inl e)
      | Some (Inr st') \<Rightarrow> main_loop simulation_runs cfgs st')"

text \<open>
  \<^verbatim>\<open>main\<close> (lines 146-176). \<open>seed\<close> is \<^verbatim>\<open>random.seed\<close>: the state of the
  generator for a seed. The result is what line 171 computes and the best setup.
\<close>

definition main ::
  "(int \<Rightarrow> rng) \<Rightarrow> int \<Rightarrow> int \<Rightarrow> int \<Rightarrow> (error + (int \<times> int) \<times> best_setup) option" where
  "main seed random_seed total_employees simulation_runs =
     (case main_loop simulation_runs (get_parameter_permutation total_employees)
             (seed random_seed, initial_best_setup) of
        None \<Rightarrow> None
      | Some (Inl e) \<Rightarrow> Some (Inl e)
      | Some (Inr (g, best)) \<Rightarrow>
          (case get_average_wait_time (best_wait_times best) of
             Inl e \<Rightarrow> Some (Inl e)
           | Inr ms \<Rightarrow> Some (Inr (ms, best))))"

text \<open>A tape given by its first draws; every later draw is 0.\<close>

fun tape_of :: "rat list \<Rightarrow> nat \<Rightarrow> rat" where
  "tape_of [] n = 0"
| "tape_of (x # xs) 0 = x"
| "tape_of (x # xs) (Suc n) = tape_of xs n"


section \<open>Properties of the enumerator\<close>

lemma set_range_py: "set (range_py a b) = {i. a \<le> i \<and> i < b}"
  by (auto simp: range_py_def)

lemma distinct_range_py: "distinct (range_py a b)"
  by (simp add: range_py_def)

lemma distinct_concat_map:
  "distinct xs \<Longrightarrow> (\<And>x. x \<in> set xs \<Longrightarrow> distinct (f x)) \<Longrightarrow>
   (\<And>x y. x \<in> set xs \<Longrightarrow> y \<in> set xs \<Longrightarrow> x \<noteq> y \<Longrightarrow> set (f x) \<inter> set (f y) = {}) \<Longrightarrow>
   distinct (concat (map f xs))"
  by (induction xs) fastforce+

lemma mem_get_parameter_permutation:
  "(c, s, u) \<in> set (get_parameter_permutation t) \<longleftrightarrow>
     1 \<le> c \<and> 1 \<le> s \<and> 1 \<le> u \<and> c + s + u < t"
  unfolding get_parameter_permutation_def Let_def
  by (auto simp: set_range_py image_iff)

lemma set_get_parameter_permutation:
  "set (get_parameter_permutation t) =
     {(c, s, u). 1 \<le> c \<and> 1 \<le> s \<and> 1 \<le> u \<and> c + s + u < t}"
  using mem_get_parameter_permutation by auto

lemma distinct_get_parameter_permutation: "distinct (get_parameter_permutation t)"
  unfolding get_parameter_permutation_def Let_def
  by (intro distinct_concat_map distinct_range_py)
     (auto simp: distinct_map distinct_range_py inj_on_def)

lemma get_parameter_permutation_empty_iff:
  "(get_parameter_permutation t = []) = (t \<le> 3)"
proof -
  have "(get_parameter_permutation t = []) = (set (get_parameter_permutation t) = {})"
    by simp
  also have "\<dots> = (t \<le> 3)"
  proof
    assume e: "set (get_parameter_permutation t) = {}"
    show "t \<le> 3"
    proof (rule ccontr)
      assume "\<not> t \<le> 3"
      then have "(1, 1, 1) \<in> set (get_parameter_permutation t)"
        by (simp add: mem_get_parameter_permutation)
      with e show False by simp
    qed
  next
    assume "t \<le> 3"
    then show "set (get_parameter_permutation t) = {}"
      by (auto simp: set_get_parameter_permutation)
  qed
  finally show ?thesis .
qed

text \<open>
  C9. For every \<open>total_employees\<close> (negative ones included) the enumerator yields exactly
  the triples whose components are all at least 1 and whose sum is strictly below
  \<open>total_employees\<close>, each of them once; so no yielded triple uses the whole headcount,
  and nothing is yielded exactly when \<open>total_employees \<le> 3\<close>.
\<close>

theorem get_parameter_permutation_exact:
  "set (get_parameter_permutation total_employees) =
     {(c, s, u). 1 \<le> c \<and> 1 \<le> s \<and> 1 \<le> u \<and> c + s + u < total_employees}
   \<and> distinct (get_parameter_permutation total_employees)
   \<and> (get_parameter_permutation total_employees = []) = (total_employees \<le> 3)"
  using set_get_parameter_permutation distinct_get_parameter_permutation
    get_parameter_permutation_empty_iff
  by blast

end
